theory Spec2Isabelle
  imports Main "HOL-Library.Multiset" "HOL-Library.List_Lexorder" "HOL-Library.Char_ord"
begin

section \<open>Values exchanged with the HTTP client\<close>

text \<open>
  The handlers of \<^verbatim>\<open>app.py\<close> read the parsed JSON body of a request and test its fields
  with Python's truth value. The body and each of its fields is any JSON value: \<^verbatim>\<open>None\<close>, a
  boolean, an integer, a string, a list or a dictionary, the latter as the list of its
  items (JSON floating-point numbers are left out). Strings are lists of characters, one
  \<^typ>\<open>char\<close> per code point below 256.
\<close>

datatype json =
    JNull
  | JBool bool
  | JNum int
  | JStr string
  | JArr "json list"
  | JObj "(string \<times> json) list"

text \<open>Python's \<^verbatim>\<open>bool(v)\<close>, as \<^verbatim>\<open>all([...])\<close> applies it to each element.\<close>

fun truthy :: "json \<Rightarrow> bool" where
  "truthy JNull = False"
| "truthy (JBool b) = b"
| "truthy (JNum n) = (n \<noteq> 0)"
| "truthy (JStr s) = (s \<noteq> [])"
| "truthy (JArr xs) = (xs \<noteq> [])"
| "truthy (JObj kvs) = (kvs \<noteq> [])"

text \<open>\<^verbatim>\<open>type(v).__name__\<close>, which Python puts into the message of an AttributeError.\<close>

fun type_name :: "json \<Rightarrow> string" where
  "type_name JNull = ''NoneType''"
| "type_name (JBool b) = ''bool''"
| "type_name (JNum n) = ''int''"
| "type_name (JStr s) = ''str''"
| "type_name (JArr xs) = ''list''"
| "type_name (JObj kvs) = ''dict''"

text \<open>
  The exceptions that the handlers can meet, each with the text that \<^verbatim>\<open>str(e)\<close> gives.
  \<open>StoreError\<close> stands for any error raised by a call to the document store,
  \<open>SMTPError\<close> for any error raised while talking to the mail relay and \<open>HTTPException\<close>
  for the error that the web framework raises when the body of a request is not JSON.
\<close>

datatype exc =
    AttributeError string
  | TypeError string
  | InvalidId string
  | DuplicateKeyError string
  | StoreError string
  | SMTPError string
  | HTTPException string

fun exc_text :: "exc \<Rightarrow> string" where
  "exc_text (AttributeError m) = m"
| "exc_text (TypeError m) = m"
| "exc_text (InvalidId s) =
     [CHR 0x27] @ s @ [CHR 0x27]
       @ '' is not a valid ObjectId, it must be a 12-byte input or a 24-character hex string''"
| "exc_text (DuplicateKeyError m) = m"
| "exc_text (StoreError m) = m"
| "exc_text (SMTPError m) = m"
| "exc_text (HTTPException m) = m"


section \<open>The priority classifier\<close>

text \<open>
  \<^verbatim>\<open>str.lower()\<close> on code points below 256: the ASCII capitals and the capitals of
  Latin-1 (\<open>0xC0\<close> to \<open>0xDE\<close>, the multiplication sign \<open>0xD7\<close> apart) move up by 32.
\<close>

definition lower_char :: "char \<Rightarrow> char" where
  "lower_char c =
     (let n = (of_char c :: nat)
      in if (65 \<le> n \<and> n \<le> 90) \<or> (192 \<le> n \<and> n \<le> 214) \<or> (216 \<le> n \<and> n \<le> 222)
         then char_of (n + 32) else c)"

definition lower :: "string \<Rightarrow> string" where
  "lower s = map lower_char s"

text \<open>
  Python's \<^verbatim>\<open>keyword in text\<close> on strings, as a search: the keyword occurs in the text
  when the text starts with it at some position.
\<close>

fun startswith :: "string \<Rightarrow> string \<Rightarrow> bool" where
  "startswith s [] = True"
| "startswith [] (k # ks) = False"
| "startswith (c # cs) (k # ks) = (c = k \<and> startswith cs ks)"

fun str_contains :: "string \<Rightarrow> string \<Rightarrow> bool" where
  "str_contains [] kw = (kw = [])"
| "str_contains (c # cs) kw = (startswith (c # cs) kw \<or> str_contains cs kw)"

definition urgent_keywords :: "string list" where
  "urgent_keywords =
     [''emergency'', ''severe'', ''acute'', ''urgent'', ''critical'', ''bleeding'', ''chest pain'']"

definition high_keywords :: "string list" where
  "high_keywords = [''pain'', ''fever'', ''infection'', ''injury'']"

definition calculate_priority :: "string \<Rightarrow> string" where
  "calculate_priority issues =
     (let issues_lower = lower issues
      in if list_ex (\<lambda>keyword. str_contains issues_lower keyword) urgent_keywords then ''High''
         else if list_ex (\<lambda>keyword. str_contains issues_lower keyword) high_keywords then ''Medium''
         else ''Low'')"

text \<open>
  The mathematical notion the search is measured against: \<open>kw\<close> is a substring of \<open>s\<close>
  when \<open>s\<close> splits into a part before, \<open>kw\<close> itself and a part after.
\<close>

definition substring_of :: "string \<Rightarrow> string \<Rightarrow> bool" where
  "substring_of kw s = (\<exists>before after. s = before @ kw @ after)"


section \<open>The environment of a request\<close>

text \<open>
  What a handler reads from outside the program during one request: the clock, the
  identifier that the store's driver generates for a new document, the configured address
  of the doctor (\<^verbatim>\<open>os.getenv\<close> gives \<^verbatim>\<open>None\<close> when it is unset), and the failures of the
  two collaborators. \<open>store_fault env n\<close> is the error, if any, raised by the \<open>n\<close>-th call
  to the store in the request; \<open>smtp_fault env to subject body\<close> is the error, if any,
  raised while the message is handed to the mail relay.
\<close>

text \<open>
  An email body is one of the four HTML templates of the source, named after its heading,
  with the values that the f-string puts into it.
\<close>

datatype email_body =
    BookingConfirmation json json json string
  | NewAppointmentRequest json json json json string
  | AppointmentConfirmed json json string
  | AppointmentUpdate json string

record env =
  utcnow :: string
  generated_id :: string
  DOCTOR_EMAIL :: json
  store_fault :: "nat \<Rightarrow> exc option"
  smtp_fault :: "json \<Rightarrow> string \<Rightarrow> email_body \<Rightarrow> exc option"


section \<open>The notification sender\<close>

text \<open>
  The body of the \<^verbatim>\<open>try\<close> block of \<^verbatim>\<open>send_email\<close>: building the message and talking to the
  relay either completes or raises.
\<close>

definition smtp_deliver :: "env \<Rightarrow> json \<Rightarrow> string \<Rightarrow> email_body \<Rightarrow> exc + unit" where
  "smtp_deliver env to_email subject body =
     (case smtp_fault env to_email subject body of
        Some e \<Rightarrow> Inl e
      | None \<Rightarrow> Inr ())"

text \<open>\<^verbatim>\<open>send_email\<close>: \<^verbatim>\<open>return True\<close> after the block, \<^verbatim>\<open>return False\<close> in \<^verbatim>\<open>except Exception\<close>.\<close>

definition send_email :: "env \<Rightarrow> json \<Rightarrow> string \<Rightarrow> email_body \<Rightarrow> exc + bool" where
  "send_email env to_email subject body =
     (case smtp_deliver env to_email subject body of
        Inr u \<Rightarrow> Inr True
      | Inl e \<Rightarrow> Inr False)"

text \<open>\<^verbatim>\<open>create_calendly_booking\<close> only builds two dictionaries and returns a fixed one.\<close>

definition create_calendly_booking :: "json \<Rightarrow> json \<Rightarrow> json \<Rightarrow> exc + json" where
  "create_calendly_booking name email start_time =
     Inr (JObj [(''success'', JBool True), (''event_id'', JStr ''calendly_event_id'')])"


section \<open>The appointment store\<close>

text \<open>
  The dictionary that \<^verbatim>\<open>book_appointment\<close> builds is an \<open>appointment\<close>; the store adds the
  key \<^verbatim>\<open>_id\<close> to it, which gives a \<open>document\<close>. The keys \<^verbatim>\<open>approved_at\<close> and \<^verbatim>\<open>rejected_at\<close>
  are absent (\<open>None\<close>) until a review sets them. An identifier is the 24 hexadecimal
  digits that \<^verbatim>\<open>str\<close> prints for an ObjectId. The collection is the list of its documents
  in insertion order.
\<close>

record appointment =
  patient_name :: json
  patient_email :: json
  issues :: json
  preferred_time :: json
  priority :: string
  status :: string
  created_at :: string
  doctor_approved :: bool
  google_meet_link :: "string option"
  approved_at :: "string option"
  rejected_at :: "string option"

record document = appointment +
  doc_id :: string

definition with_id :: "string \<Rightarrow> appointment \<Rightarrow> document" where
  "with_id oid a = appointment.extend a (document.fields oid)"

definition is_hex :: "char \<Rightarrow> bool" where
  "is_hex c =
     (let n = (of_char c :: nat)
      in (48 \<le> n \<and> n \<le> 57) \<or> (65 \<le> n \<and> n \<le> 70) \<or> (97 \<le> n \<and> n \<le> 102))"

text \<open>
  \<^verbatim>\<open>ObjectId(s)\<close> of the \<^verbatim>\<open>bson\<close> library on a string: 24 hexadecimal digits, read without
  regard to case, or the exception InvalidId. (The library also lets a 24-character string
  with blanks between its digits through, as an identifier too short to match any document;
  such a string counts as invalid here.)
\<close>

definition ObjectId :: "string \<Rightarrow> exc + string" where
  "ObjectId s =
     (if length s = 24 \<and> list_all is_hex s then Inr (lower s) else Inl (InvalidId s))"

text \<open>
  \<^verbatim>\<open>insert_one\<close>: the driver generates the identifier; the store refuses a second document
  with the same \<^verbatim>\<open>_id\<close>.
\<close>

definition insert_one ::
  "env \<Rightarrow> nat \<Rightarrow> appointment \<Rightarrow> document list \<Rightarrow> document list \<times> (exc + string)" where
  "insert_one env n a coll =
     (case store_fault env n of
        Some e \<Rightarrow> (coll, Inl e)
      | None \<Rightarrow>
          if generated_id env \<in> set (map doc_id coll)
          then (coll, Inl (DuplicateKeyError ''E11000 duplicate key error''))
          else (coll @ [with_id (generated_id env) a], Inr (generated_id env)))"

fun update_first :: "('a \<Rightarrow> bool) \<Rightarrow> ('a \<Rightarrow> 'a) \<Rightarrow> 'a list \<Rightarrow> 'a list" where
  "update_first P f [] = []"
| "update_first P f (x # xs) = (if P x then f x # xs else x # update_first P f xs)"

text \<open>
  \<^verbatim>\<open>update_one({"_id": oid}, {"$set": ...})\<close>: the first document with that identifier is
  changed; the result is the number of documents matched, 0 or 1.
\<close>

definition update_one ::
  "env \<Rightarrow> nat \<Rightarrow> string \<Rightarrow> (document \<Rightarrow> document) \<Rightarrow> document list
     \<Rightarrow> document list \<times> (exc + nat)" where
  "update_one env n oid set_fields coll =
     (case store_fault env n of
        Some e \<Rightarrow> (coll, Inl e)
      | None \<Rightarrow>
          (update_first (\<lambda>d. doc_id d = oid) set_fields coll,
           Inr (if list_ex (\<lambda>d. doc_id d = oid) coll then 1 else 0)))"

definition find_one :: "env \<Rightarrow> nat \<Rightarrow> string \<Rightarrow> document list \<Rightarrow> exc + document option" where
  "find_one env n oid coll =
     (case store_fault env n of
        Some e \<Rightarrow> Inl e
      | None \<Rightarrow> Inr (find (\<lambda>d. doc_id d = oid) coll))"

text \<open>
  \<^verbatim>\<open>find().sort("created_at", -1)\<close>: every document, the greatest \<^verbatim>\<open>created_at\<close> first
  (strings compare code point by code point).
\<close>

definition find_sorted_desc :: "env \<Rightarrow> nat \<Rightarrow> document list \<Rightarrow> exc + document list" where
  "find_sorted_desc env n coll =
     (case store_fault env n of
        Some e \<Rightarrow> Inl e
      | None \<Rightarrow> Inr (rev (sort_key created_at coll)))"


section \<open>Responses\<close>

datatype response = Response (status_code: nat) (payload: json)

definition jsonify :: "(string \<times> json) list \<Rightarrow> json" where
  "jsonify d = JObj d"

text \<open>The \<^verbatim>\<open>except Exception as e\<close> clause that ends every handler.\<close>

definition error_response :: "exc \<Rightarrow> response" where
  "error_response e =
     Response 500 (jsonify [(''success'', JBool False), (''message'', JStr (exc_text e))])"

text \<open>
  The AttributeError that Python raises when a method is looked up on a value whose type
  does not have it.
\<close>

definition no_attribute :: "json \<Rightarrow> string \<Rightarrow> exc" where
  "no_attribute v attr =
     AttributeError
       ([CHR 0x27] @ type_name v @ [CHR 0x27] @ '' object has no attribute ''
          @ [CHR 0x27] @ attr @ [CHR 0x27])"

text \<open>\<^verbatim>\<open>d.get(key)\<close> on a dictionary: \<^verbatim>\<open>None\<close> for a key that is not there.\<close>

definition get_item :: "(string \<times> json) list \<Rightarrow> string \<Rightarrow> json" where
  "get_item kvs k = (case map_of kvs k of None \<Rightarrow> JNull | Some v \<Rightarrow> v)"

text \<open>
  \<^verbatim>\<open>data.get(key)\<close> on the parsed request body, whatever JSON value it is: only a
  dictionary has the method.
\<close>

definition dict_get :: "json \<Rightarrow> string \<Rightarrow> exc + json" where
  "dict_get data k =
     (case data of
        JObj kvs \<Rightarrow> Inr (get_item kvs k)
      | _ \<Rightarrow> Inl (no_attribute data ''get''))"

text \<open>
  The call \<^verbatim>\<open>calculate_priority(issues)\<close> on a field of any type: \<^verbatim>\<open>issues.lower()\<close> exists
  on strings only.
\<close>

definition call_calculate_priority :: "json \<Rightarrow> exc + string" where
  "call_calculate_priority v =
     (case v of
        JStr s \<Rightarrow> Inr (calculate_priority s)
      | _ \<Rightarrow> Inl (no_attribute v ''lower''))"

text \<open>\<^verbatim>\<open>appointment['patient_name']\<close> and the like on the result of \<^verbatim>\<open>find_one\<close>.\<close>

definition subscript :: "document option \<Rightarrow> exc + document" where
  "subscript r =
     (case r of
        None \<Rightarrow> Inl (TypeError
                   ([CHR 0x27] @ ''NoneType'' @ [CHR 0x27] @ '' object is not subscriptable''))
      | Some d \<Rightarrow> Inr d)"


section \<open>The booking workflow\<close>

definition new_appointment :: "env \<Rightarrow> json \<Rightarrow> json \<Rightarrow> json \<Rightarrow> json \<Rightarrow> string \<Rightarrow> appointment" where
  "new_appointment env name email iss time prio =
     \<lparr>patient_name = name, patient_email = email, issues = iss, preferred_time = time,
      priority = prio, status = ''pending'', created_at = utcnow env,
      doctor_approved = False, google_meet_link = None,
      approved_at = None, rejected_at = None\<rparr>"

text \<open>
  \<open>request_json\<close> is what \<^verbatim>\<open>request.json\<close> evaluates to inside the \<^verbatim>\<open>try\<close> block: the parsed
  body, or the exception raised for a body that is not JSON.
\<close>

definition book_appointment ::
  "env \<Rightarrow> exc + json \<Rightarrow> document list \<Rightarrow> document list \<times> response" where
  "book_appointment env request_json coll =
     (case request_json of
        Inl e \<Rightarrow> (coll, error_response e)
      | Inr data \<Rightarrow>
     (case dict_get data ''patient_name'' of
        Inl e \<Rightarrow> (coll, error_response e)
      | Inr name \<Rightarrow>
     (case dict_get data ''patient_email'' of
        Inl e \<Rightarrow> (coll, error_response e)
      | Inr email \<Rightarrow>
     (case dict_get data ''issues'' of
        Inl e \<Rightarrow> (coll, error_response e)
      | Inr iss \<Rightarrow>
     (case dict_get data ''preferred_time'' of
        Inl e \<Rightarrow> (coll, error_response e)
      | Inr time \<Rightarrow>
         if \<not> list_all truthy [name, email, iss, time]
         then (coll, Response 400
                 (jsonify [(''success'', JBool False), (''message'', JStr ''All fields are required'')]))
         else
           (case call_calculate_priority iss of
              Inl e \<Rightarrow> (coll, error_response e)
            | Inr prio \<Rightarrow>
                (case insert_one env 0 (new_appointment env name email iss time prio) coll of
                   (coll', Inl e) \<Rightarrow> (coll', error_response e)
                 | (coll', Inr inserted_id) \<Rightarrow>
                     (case create_calendly_booking name email time of
                        Inl e \<Rightarrow> (coll', error_response e)
                      | Inr calendly_result \<Rightarrow>
                          (case send_email env email ''Appointment Booking Received''
                                  (BookingConfirmation name time iss prio) of
                             Inl e \<Rightarrow> (coll', error_response e)
                           | Inr sent_patient \<Rightarrow>
                               (case send_email env (DOCTOR_EMAIL env)
                                       (''New Appointment - Priority: '' @ prio)
                                       (NewAppointmentRequest name email iss time prio) of
                                  Inl e \<Rightarrow> (coll', error_response e)
                                | Inr sent_doctor \<Rightarrow>
                                    (coll', Response 200
                                       (jsonify
                                          [(''success'', JBool True),
                                           (''message'',
                                            JStr ''Form submitted successfully! Email will be sent shortly''),
                                           (''appointment_id'', JStr inserted_id)]))))))))))))"


section \<open>The review workflow\<close>

definition approve_fields :: "string \<Rightarrow> string \<Rightarrow> document \<Rightarrow> document" where
  "approve_fields meet_link now d =
     d\<lparr>status := ''approved'', doctor_approved := True,
       google_meet_link := Some meet_link, approved_at := Some now\<rparr>"

definition approve_appointment ::
  "env \<Rightarrow> string \<Rightarrow> document list \<Rightarrow> document list \<times> response" where
  "approve_appointment env appointment_id coll =
     (let meet_link = ''https://meet.google.com/'' @ take 10 appointment_id
      in case ObjectId appointment_id of
           Inl e \<Rightarrow> (coll, error_response e)
         | Inr oid \<Rightarrow>
             (case update_one env 0 oid (approve_fields meet_link (utcnow env)) coll of
                (coll', Inl e) \<Rightarrow> (coll', error_response e)
              | (coll', Inr matched) \<Rightarrow>
                  (case find_one env 1 oid coll' of
                     Inl e \<Rightarrow> (coll', error_response e)
                   | Inr found \<Rightarrow>
                       (case subscript found of
                          Inl e \<Rightarrow> (coll', error_response e)
                        | Inr appointment \<Rightarrow>
                            (case send_email env (patient_email appointment)
                                    ''Appointment Confirmed''
                                    (AppointmentConfirmed (patient_name appointment)
                                       (preferred_time appointment) meet_link) of
                               Inl e \<Rightarrow> (coll', error_response e)
                             | Inr sent \<Rightarrow>
                                 (coll', Response 200
                                    (jsonify [(''success'', JBool True),
                                              (''message'', JStr ''Appointment approved'')])))))))"

definition reject_fields :: "string \<Rightarrow> document \<Rightarrow> document" where
  "reject_fields now d =
     d\<lparr>status := ''rejected'', doctor_approved := False, rejected_at := Some now\<rparr>"

definition reschedule_link :: string where
  "reschedule_link = ''https://online-dr-consultation.onrender.com/api/appointments''"

definition reject_appointment ::
  "env \<Rightarrow> string \<Rightarrow> document list \<Rightarrow> document list \<times> response" where
  "reject_appointment env appointment_id coll =
     (case ObjectId appointment_id of
        Inl e \<Rightarrow> (coll, error_response e)
      | Inr oid \<Rightarrow>
          (case update_one env 0 oid (reject_fields (utcnow env)) coll of
             (coll', Inl e) \<Rightarrow> (coll', error_response e)
           | (coll', Inr matched) \<Rightarrow>
               (case find_one env 1 oid coll' of
                  Inl e \<Rightarrow> (coll', error_response e)
                | Inr found \<Rightarrow>
                    (case subscript found of
                       Inl e \<Rightarrow> (coll', error_response e)
                     | Inr appointment \<Rightarrow>
                         (case send_email env (patient_email appointment)
                                 ''Appointment Rescheduling Required''
                                 (AppointmentUpdate (patient_name appointment) reschedule_link) of
                            Inl e \<Rightarrow> (coll', error_response e)
                          | Inr sent \<Rightarrow>
                              (coll', Response 200
                                 (jsonify [(''success'', JBool True),
                                           (''message'', JStr ''Appointment rejected'')])))))))"


section \<open>The listing\<close>

text \<open>\<^verbatim>\<open>priority_order.get(x["priority"], 3)\<close>.\<close>

definition priority_order :: "(string \<times> nat) list" where
  "priority_order = [(''High'', 0), (''Medium'', 1), (''Low'', 2)]"

definition priority_rank :: "document \<Rightarrow> nat" where
  "priority_rank x = (case map_of priority_order (priority x) of Some r \<Rightarrow> r | None \<Rightarrow> 3)"

text \<open>
  The list \<^verbatim>\<open>appointments\<close> after \<^verbatim>\<open>appointments.sort(key=...)\<close>. Python's sort is stable,
  as \<^const>\<open>sort_key\<close> is. Writing \<^verbatim>\<open>str(apt["_id"])\<close> back changes nothing here, an
  identifier being its printed form already.
\<close>

definition sorted_appointments :: "env \<Rightarrow> document list \<Rightarrow> exc + document list" where
  "sorted_appointments env coll =
     (case find_sorted_desc env 0 coll of
        Inl e \<Rightarrow> Inl e
      | Inr appointments \<Rightarrow> Inr (sort_key priority_rank appointments))"

definition opt_json :: "string option \<Rightarrow> json" where
  "opt_json v = (case v of None \<Rightarrow> JNull | Some s \<Rightarrow> JStr s)"

definition opt_key :: "string \<Rightarrow> string option \<Rightarrow> (string \<times> json) list" where
  "opt_key k v = (case v of None \<Rightarrow> [] | Some s \<Rightarrow> [(k, JStr s)])"

definition document_json :: "document \<Rightarrow> json" where
  "document_json d =
     JObj ([(''_id'', JStr (doc_id d)),
            (''patient_name'', patient_name d),
            (''patient_email'', patient_email d),
            (''issues'', issues d),
            (''preferred_time'', preferred_time d),
            (''priority'', JStr (priority d)),
            (''status'', JStr (status d)),
            (''created_at'', JStr (created_at d)),
            (''doctor_approved'', JBool (doctor_approved d)),
            (''google_meet_link'', opt_json (google_meet_link d))]
           @ opt_key ''approved_at'' (approved_at d)
           @ opt_key ''rejected_at'' (rejected_at d))"

definition get_appointments :: "env \<Rightarrow> document list \<Rightarrow> response" where
  "get_appointments env coll =
     (case sorted_appointments env coll of
        Inl e \<Rightarrow> error_response e
      | Inr appointments \<Rightarrow>
          Response 200
            (jsonify [(''success'', JBool True),
                      (''appointments'', JArr (map document_json appointments))]))"


section \<open>The system as a transition system\<close>

text \<open>
  A step is one request that can write to the store, with the environment it runs in.
  \<open>run\<close> applies a sequence of requests, first to last, and keeps the store.
\<close>

datatype request =
    Book env "exc + json"
  | Approve env string
  | Reject env string

fun step :: "request \<Rightarrow> document list \<Rightarrow> document list" where
  "step (Book env request_json) coll = fst (book_appointment env request_json coll)"
| "step (Approve env appointment_id) coll = fst (approve_appointment env appointment_id coll)"
| "step (Reject env appointment_id) coll = fst (reject_appointment env appointment_id coll)"

fun run :: "request list \<Rightarrow> document list \<Rightarrow> document list" where
  "run [] coll = coll"
| "run (r # rs) coll = run rs (step r coll)"

text \<open>A concrete environment and a concrete booking, used in the examples below.\<close>

definition env0 :: env where
  "env0 = \<lparr>utcnow = ''2024-05-01T10:00:00.000001'',
           generated_id = ''0123456789abcdef01234567'',
           DOCTOR_EMAIL = JStr ''doctor@example.org'',
           store_fault = (\<lambda>n. None),
           smtp_fault = (\<lambda>to_email subject body. None)\<rparr>"

definition data0 :: json where
  "data0 = JObj [(''patient_name'', JStr ''Ann''), (''patient_email'', JStr ''ann@example.org''),
                 (''issues'', JStr ''I have a mild fever''), (''preferred_time'', JStr ''Monday 10:00'')]"

definition doc0 :: document where
  "doc0 = \<lparr>patient_name = JStr ''Ann'', patient_email = JStr ''ann@example.org'',
           issues = JStr ''I have a mild fever'', preferred_time = JStr ''Monday 10:00'',
           priority = ''Medium'', status = ''pending'',
           created_at = ''2024-05-01T10:00:00.000001'', doctor_approved = False,
           google_meet_link = None, approved_at = None, rejected_at = None,
           doc_id = ''0123456789abcdef01234567''\<rparr>"


text \<open>The same document after an approval, and after a rejection that follows it.\<close>

definition doc0_approved :: document where
  "doc0_approved =
     doc0\<lparr>status := ''approved'', doctor_approved := True,
          google_meet_link := Some ''https://meet.google.com/0123456789'',
          approved_at := Some ''2024-05-01T10:00:00.000001''\<rparr>"

definition doc0_rejected :: document where
  "doc0_rejected =
     doc0_approved\<lparr>status := ''rejected'', doctor_approved := False,
          rejected_at := Some ''2024-05-01T10:00:00.000001''\<rparr>"

text \<open>Three more documents, for the listing: one urgent, one newer, one of unknown priority.\<close>

definition doc_high :: document where
  "doc_high = doc0\<lparr>issues := JStr ''severe chest pain'', priority := ''High'',
                  created_at := ''2024-05-01T09:00:00'',
                  doc_id := ''0123456789abcdef01234568''\<rparr>"

definition doc_medium :: document where
  "doc_medium = doc0\<lparr>created_at := ''2024-05-02T08:00:00.250000'',
                    doc_id := ''0123456789abcdef01234569''\<rparr>"

definition doc_other :: document where
  "doc_other = doc0\<lparr>priority := ''Urgent'', created_at := ''2024-05-03T08:00:00'',
                   doc_id := ''0123456789abcdef0123456a''\<rparr>"


section \<open>Notions used to state the properties\<close>

text \<open>
  The field of a request body under a key: the value stored under the key when the body is
  a dictionary that has it, and \<^verbatim>\<open>None\<close> when the key is missing or the body has no fields
  at all.
\<close>

definition field_of :: "json \<Rightarrow> string \<Rightarrow> json" where
  "field_of data k = (case data of JObj kvs \<Rightarrow> get_item kvs k | _ \<Rightarrow> JNull)"

text \<open>
  The document that an identifier of the URL resolves to: the first one whose \<^verbatim>\<open>_id\<close> is the
  ObjectId that the string denotes; none when the string denotes no ObjectId.
\<close>

definition resolve :: "string \<Rightarrow> document list \<Rightarrow> document option" where
  "resolve appointment_id coll =
     (case ObjectId appointment_id of
        Inl e \<Rightarrow> None
      | Inr oid \<Rightarrow> find (\<lambda>d. doc_id d = oid) coll)"

text \<open>
  What holds of every document in every reachable store: an approved document has a
  meeting link, a pending one has none, a link is there exactly when \<^verbatim>\<open>approved_at\<close> is, and
  the status is one of the three that the handlers write.
\<close>

definition review_inv :: "document \<Rightarrow> bool" where
  "review_inv d =
     ((status d = ''approved'' \<longrightarrow> google_meet_link d \<noteq> None)
      \<and> (status d = ''pending'' \<longrightarrow> google_meet_link d = None)
      \<and> ((google_meet_link d \<noteq> None) = (approved_at d \<noteq> None))
      \<and> (status d = ''pending'' \<or> status d = ''approved'' \<or> status d = ''rejected''))"


section \<open>The classifier decides by substring containment\<close>

lemma startswith_iff: "startswith s kw = (\<exists>after. s = kw @ after)"
  by (induction s kw rule: startswith.induct) auto

lemma str_contains_iff: "str_contains s kw = substring_of kw s"
proof (induction s)
  case Nil
  show ?case by (auto simp: substring_of_def)
next
  case (Cons c cs)
  have "substring_of kw (c # cs) = ((\<exists>after. c # cs = kw @ after) \<or> substring_of kw cs)"
  proof
    assume "substring_of kw (c # cs)"
    then obtain p q where pq: "c # cs = p @ kw @ q"
      by (auto simp: substring_of_def)
    show "(\<exists>after. c # cs = kw @ after) \<or> substring_of kw cs"
    proof (cases p)
      case Nil
      with pq show ?thesis by auto
    next
      case (Cons a p')
      with pq have "cs = p' @ kw @ q" by simp
      then show ?thesis by (auto simp: substring_of_def)
    qed
  next
    assume "(\<exists>after. c # cs = kw @ after) \<or> substring_of kw cs"
    then show "substring_of kw (c # cs)"
    proof
      assume "\<exists>after. c # cs = kw @ after"
      then obtain q where "c # cs = [] @ kw @ q" by auto
      then show ?thesis unfolding substring_of_def by blast
    next
      assume "substring_of kw cs"
      then obtain p q where "cs = p @ kw @ q" by (auto simp: substring_of_def)
      then have "c # cs = (c # p) @ kw @ q" by simp
      then show ?thesis unfolding substring_of_def by blast
    qed
  qed
  with Cons show ?case by (simp add: startswith_iff)
qed

text \<open>
  C1. For every string the classifier returns a value, fixed by substring containment in
  the lower-cased text: High when one of the seven urgent keywords occurs; otherwise
  Medium when one of pain, fever, infection, injury occurs; otherwise Low. The urgent
  keywords are tested first, and the empty string is classified Low.
\<close>

theorem calculate_priority_spec:
  "calculate_priority s =
     (if substring_of ''emergency'' (lower s) \<or> substring_of ''severe'' (lower s)
         \<or> substring_of ''acute'' (lower s) \<or> substring_of ''urgent'' (lower s)
         \<or> substring_of ''critical'' (lower s) \<or> substring_of ''bleeding'' (lower s)
         \<or> substring_of ''chest pain'' (lower s)
      then ''High''
      else if substring_of ''pain'' (lower s) \<or> substring_of ''fever'' (lower s)
         \<or> substring_of ''infection'' (lower s) \<or> substring_of ''injury'' (lower s)
      then ''Medium''
      else ''Low'')
   \<and> calculate_priority [] = ''Low''"
proof -
  have empty: "calculate_priority [] = ''Low''"
    by (simp add: calculate_priority_def lower_def urgent_keywords_def high_keywords_def)
  show ?thesis
    unfolding empty
    by (simp add: calculate_priority_def urgent_keywords_def high_keywords_def
        str_contains_iff Let_def)
qed

section \<open>Shapes of the store after a request\<close>

lemma send_email_total: "send_email env t s b = Inr (smtp_fault env t s b = None)"
  by (simp add: send_email_def smtp_deliver_def split: option.splits)

lemma dict_get_object: "dict_get (JObj kvs) k = Inr (get_item kvs k)"
  by (simp add: dict_get_def)

lemma field_of_object: "field_of (JObj kvs) k = get_item kvs k"
  by (simp add: field_of_def)

lemma dict_get_other:
  "\<forall>kvs. data \<noteq> JObj kvs \<Longrightarrow> dict_get data k = Inl (no_attribute data ''get'')"
  by (cases data) (simp_all add: dict_get_def)

lemma field_of_other: "\<forall>kvs. data \<noteq> JObj kvs \<Longrightarrow> field_of data k = JNull"
  by (cases data) (simp_all add: field_of_def)

lemma book_appointment_raised:
  "book_appointment env (Inl e) coll = (coll, error_response e)"
  by (simp add: book_appointment_def)

lemma book_appointment_other:
  "\<forall>kvs. data \<noteq> JObj kvs \<Longrightarrow>
   book_appointment env (Inr data) coll = (coll, error_response (no_attribute data ''get''))"
  by (simp add: book_appointment_def dict_get_other)

lemma book_appointment_store:
  "fst (book_appointment env request_json coll) = coll
   \<or> (\<exists>data prio. request_json = Inr data
        \<and> fst (book_appointment env request_json coll)
          = coll @ [with_id (generated_id env)
                     (new_appointment env (field_of data ''patient_name'')
                        (field_of data ''patient_email'') (field_of data ''issues'')
                        (field_of data ''preferred_time'') prio)])"
proof (cases request_json)
  case (Inl e)
  then show ?thesis by (simp add: book_appointment_raised)
next
  case (Inr data)
  show ?thesis
  proof (cases "\<exists>kvs. data = JObj kvs")
    case False
    with Inr show ?thesis by (simp add: book_appointment_other)
  next
    case True
    then obtain kvs where "data = JObj kvs" by blast
    with Inr show ?thesis
      by (auto simp: book_appointment_def dict_get_object field_of_object insert_one_def
          create_calendly_booking_def send_email_total
          split: sum.splits option.splits prod.splits if_splits)
  qed
qed

lemma new_document_fields:
  "status (with_id oid (new_appointment env n e i t p)) = ''pending''"
  "google_meet_link (with_id oid (new_appointment env n e i t p)) = None"
  "approved_at (with_id oid (new_appointment env n e i t p)) = None"
  "rejected_at (with_id oid (new_appointment env n e i t p)) = None"
  "doctor_approved (with_id oid (new_appointment env n e i t p)) = False"
  "created_at (with_id oid (new_appointment env n e i t p)) = utcnow env"
  "priority (with_id oid (new_appointment env n e i t p)) = p"
  "doc_id (with_id oid (new_appointment env n e i t p)) = oid"
  by (simp_all add: with_id_def new_appointment_def appointment.defs document.defs)

lemma approve_appointment_store:
  "fst (approve_appointment env aid coll) = coll
   \<or> (\<exists>oid. ObjectId aid = Inr oid
          \<and> fst (approve_appointment env aid coll)
              = update_first (\<lambda>d. doc_id d = oid)
                  (approve_fields (''https://meet.google.com/'' @ take 10 aid) (utcnow env)) coll)"
  by (auto simp: approve_appointment_def update_one_def Let_def send_email_total
      split: sum.splits option.splits prod.splits)

lemma reject_appointment_store:
  "fst (reject_appointment env aid coll) = coll
   \<or> (\<exists>oid. ObjectId aid = Inr oid
          \<and> fst (reject_appointment env aid coll)
              = update_first (\<lambda>d. doc_id d = oid) (reject_fields (utcnow env)) coll)"
  by (auto simp: reject_appointment_def update_one_def Let_def send_email_total
      split: sum.splits option.splits prod.splits)

lemma update_first_preserves:
  "(\<And>x. x \<in> set xs \<Longrightarrow> Q x) \<Longrightarrow> (\<And>x. Q x \<Longrightarrow> Q (f x)) \<Longrightarrow> y \<in> set (update_first P f xs) \<Longrightarrow> Q y"
  by (induction xs) (auto split: if_splits)

lemma update_first_split:
  "find P xs = Some d \<Longrightarrow>
   \<exists>pre post. xs = pre @ d # post \<and> (\<forall>x\<in>set pre. \<not> P x) \<and> update_first P f xs = pre @ f d # post"
proof (induction xs)
  case Nil
  then show ?case by simp
next
  case (Cons x xs)
  show ?case
  proof (cases "P x")
    case True
    with Cons.prems have "x = d" by simp
    with True have "x # xs = [] @ d # xs \<and> (\<forall>y\<in>set []. \<not> P y) \<and> update_first P f (x # xs) = [] @ f d # xs"
      by simp
    then show ?thesis by blast
  next
    case False
    with Cons.prems have "find P xs = Some d" by simp
    from Cons.IH[OF this] obtain pre post where
      "xs = pre @ d # post" "\<forall>x\<in>set pre. \<not> P x" "update_first P f xs = pre @ f d # post"
      by blast
    with False have "x # xs = (x # pre) @ d # post \<and> (\<forall>y\<in>set (x # pre). \<not> P y)
        \<and> update_first P f (x # xs) = (x # pre) @ f d # post"
      by simp
    then show ?thesis by blast
  qed
qed

lemma update_first_none: "find P xs = None \<Longrightarrow> update_first P f xs = xs"
  by (induction xs) (auto split: if_splits)


section \<open>A concrete booking\<close>

lemma env0_sel:
  "utcnow env0 = ''2024-05-01T10:00:00.000001''"
  "generated_id env0 = ''0123456789abcdef01234567''"
  "DOCTOR_EMAIL env0 = JStr ''doctor@example.org''"
  "store_fault env0 n = None"
  "smtp_fault env0 t s b = None"
  by (simp_all add: env0_def)

lemma data0_get:
  "field_of data0 ''patient_name'' = JStr ''Ann''"
  "field_of data0 ''patient_email'' = JStr ''ann@example.org''"
  "field_of data0 ''issues'' = JStr ''I have a mild fever''"
  "field_of data0 ''preferred_time'' = JStr ''Monday 10:00''"
  by (simp_all add: field_of_def get_item_def data0_def)

lemma priority_example: "calculate_priority ''I have a mild fever'' = ''Medium''"
  by code_simp


lemma oid0: "ObjectId ''0123456789abcdef01234567'' = Inr ''0123456789abcdef01234567''"
  by code_simp

lemma doc0_sel:
  "doc_id doc0 = ''0123456789abcdef01234567''"
  "status doc0 = ''pending''"
  "google_meet_link doc0 = None"
  by (simp_all add: doc0_def)

lemma book0: "book_appointment env0 (Inr data0) [] =
    ([doc0], Response 200 (JObj
       [(''success'', JBool True),
        (''message'', JStr ''Form submitted successfully! Email will be sent shortly''),
        (''appointment_id'', JStr ''0123456789abcdef01234567'')]))"
  by (simp add: book_appointment_def dict_get_def get_item_def data0_def insert_one_def
      send_email_total create_calendly_booking_def call_calculate_priority_def
      new_appointment_def with_id_def jsonify_def env0_sel doc0_def priority_example
      appointment.defs document.defs)

lemma approve0:
  "fst (approve_appointment env0 ''0123456789abcdef01234567'' [doc0]) = [doc0_approved]"
  by (simp add: approve_appointment_def oid0 update_one_def find_one_def subscript_def
      send_email_total approve_fields_def env0_sel doc0_sel doc0_approved_def)

lemma reject0:
  "fst (reject_appointment env0 ''0123456789abcdef01234567'' [doc0_approved]) = [doc0_rejected]"
  by (simp add: reject_appointment_def oid0 update_one_def find_one_def subscript_def
      send_email_total reject_fields_def env0_sel doc0_sel doc0_approved_def doc0_rejected_def)

lemma doc0_approved_sel:
  "status doc0_approved = ''approved''"
  "google_meet_link doc0_approved = Some ''https://meet.google.com/0123456789''"
  by (simp_all add: doc0_approved_def)

lemma doc0_rejected_sel:
  "status doc0_rejected = ''rejected''"
  "google_meet_link doc0_rejected = Some ''https://meet.google.com/0123456789''"
  by (simp_all add: doc0_rejected_def doc0_approved_def)

lemma oid_f: "ObjectId ''ffffffffffffffffffffffff'' = Inr ''ffffffffffffffffffffffff''"
  by code_simp

lemma resolve_f: "resolve ''ffffffffffffffffffffffff'' [doc0] = None"
  by (simp add: resolve_def oid_f doc0_sel)

lemma classifier_examples:
  "calculate_priority ''severe chest pain'' = ''High''"
  "calculate_priority ''I have a mild fever'' = ''Medium''"
  "calculate_priority ''routine checkup'' = ''Low''"
  "calculate_priority ''PAINLESS'' = ''Medium''"
  by code_simp+


section \<open>Booking\<close>

text \<open>
  C2 as stated fails: a request whose body is the JSON value \<^verbatim>\<open>null\<close> has none of the four
  fields, and the handler answers it with status 500, \<^verbatim>\<open>data.get\<close> raising before the
  fields are tested.
\<close>

theorem book_appointment_validation_counterexample:
  "field_of JNull ''patient_email'' = JNull
   \<and> book_appointment env0 (Inr JNull) [doc0] =
       ([doc0], Response 500 (JObj
          [(''success'', JBool False),
           (''message'',
            JStr ([CHR 0x27] @ ''NoneType'' @ [CHR 0x27] @ '' object has no attribute ''
                  @ [CHR 0x27] @ ''get'' @ [CHR 0x27]))]))"
  by (simp add: field_of_def book_appointment_def dict_get_def no_attribute_def
      error_response_def jsonify_def)

text \<open>
  C2, amended. A booking request whose body is a JSON object in which one of the four
  required fields is missing or empty (or has any other value that Python counts as false)
  is answered with status 400 and the body
  \<^verbatim>\<open>{"success": false, "message": "All fields are required"}\<close>, and the store is returned
  unchanged. A request whose body is JSON but not an object, or is not JSON at all, is
  answered with status 500 and the text of the exception, and the store is returned
  unchanged as well.
\<close>

theorem book_appointment_validation:
  "(k \<in> {''patient_name'', ''patient_email'', ''issues'', ''preferred_time''}
      \<and> (map_of kvs k = None \<or> \<not> truthy (get_item kvs k))
    \<longrightarrow> book_appointment env (Inr (JObj kvs)) coll =
          (coll, Response 400 (JObj [(''success'', JBool False),
                                     (''message'', JStr ''All fields are required'')])))
   \<and> ((\<forall>items. data \<noteq> JObj items)
    \<longrightarrow> book_appointment env (Inr data) coll =
          (coll, Response 500 (JObj [(''success'', JBool False),
                                     (''message'', JStr (exc_text (no_attribute data ''get'')))])))
   \<and> book_appointment env (Inl e) coll =
          (coll, Response 500 (JObj [(''success'', JBool False),
                                     (''message'', JStr (exc_text e))]))"
proof -
  have 1: "book_appointment env (Inr (JObj kvs)) coll =
          (coll, Response 400 (JObj [(''success'', JBool False),
                                     (''message'', JStr ''All fields are required'')]))"
    if k: "k \<in> {''patient_name'', ''patient_email'', ''issues'', ''preferred_time''}"
      and f: "map_of kvs k = None \<or> \<not> truthy (get_item kvs k)"
  proof -
    from f have "\<not> truthy (get_item kvs k)"
      by (auto simp: get_item_def)
    with k have "\<not> list_all truthy
        [get_item kvs ''patient_name'', get_item kvs ''patient_email'',
         get_item kvs ''issues'', get_item kvs ''preferred_time'']"
      by auto
    then show ?thesis
      by (simp add: book_appointment_def dict_get_object jsonify_def)
  qed
  have 2: "book_appointment env (Inr data) coll =
          (coll, Response 500 (JObj [(''success'', JBool False),
                                     (''message'', JStr (exc_text (no_attribute data ''get'')))]))"
    if "\<forall>items. data \<noteq> JObj items"
    using that by (simp add: book_appointment_other error_response_def jsonify_def)
  have 3: "book_appointment env (Inl e) coll =
          (coll, Response 500 (JObj [(''success'', JBool False),
                                     (''message'', JStr (exc_text e))]))"
    by (simp add: book_appointment_raised error_response_def jsonify_def)
  from 1 2 3 show ?thesis by blast
qed

theorem book_appointment_validation_witness:
  "''patient_email'' \<in> {''patient_name'', ''patient_email'', ''issues'', ''preferred_time''}
   \<and> map_of [(''patient_name'', JStr ''Ann''), (''issues'', JStr ''I have a mild fever''),
              (''preferred_time'', JStr ''Monday 10:00'')] ''patient_email'' = None
   \<and> book_appointment env0
        (Inr (JObj [(''patient_name'', JStr ''Ann''), (''issues'', JStr ''I have a mild fever''),
                    (''preferred_time'', JStr ''Monday 10:00'')])) [doc0] =
         ([doc0], Response 400 (JObj [(''success'', JBool False),
                                      (''message'', JStr ''All fields are required'')]))
   \<and> book_appointment env0 (Inr (JArr [])) [doc0] =
         ([doc0], Response 500 (JObj
            [(''success'', JBool False),
             (''message'', JStr (exc_text (no_attribute (JArr []) ''get'')))]))"
  using book_appointment_validation
    [of "''patient_email''"
        "[(''patient_name'', JStr ''Ann''), (''issues'', JStr ''I have a mild fever''),
          (''preferred_time'', JStr ''Monday 10:00'')]" env0 "[doc0]" "JArr []"]
  by simp


text \<open>
  C3. For a booking request whose four required fields are all non-empty: when the
  booking succeeds (status 200), the issue text is a string, the store has grown by
  exactly one document, appended, with status pending, doctor_approved false, no meeting
  link, created_at the time of the request and the priority that the classifier gives for
  the issue text, and the response carries the identifier of that document. A booking
  that does not succeed leaves the store as it was. The booking succeeds exactly when the
  issue text is a string, the store raises no error and the generated identifier is new.
\<close>

theorem book_appointment_success:
  assumes "list_all truthy [field_of data ''patient_name'', field_of data ''patient_email'',
             field_of data ''issues'', field_of data ''preferred_time'']"
  shows "(status_code (snd (book_appointment env (Inr data) coll)) = 200
          \<longrightarrow> (\<exists>s. field_of data ''issues'' = JStr s
                \<and> fst (book_appointment env (Inr data) coll) =
                    coll @ [\<lparr>patient_name = field_of data ''patient_name'',
                             patient_email = field_of data ''patient_email'',
                             issues = JStr s,
                             preferred_time = field_of data ''preferred_time'',
                             priority = calculate_priority s, status = ''pending'',
                             created_at = utcnow env, doctor_approved = False,
                             google_meet_link = None, approved_at = None, rejected_at = None,
                             doc_id = generated_id env\<rparr>]
                \<and> snd (book_appointment env (Inr data) coll) =
                    Response 200 (JObj
                      [(''success'', JBool True),
                       (''message'', JStr ''Form submitted successfully! Email will be sent shortly''),
                       (''appointment_id'', JStr (generated_id env))])))
       \<and> (status_code (snd (book_appointment env (Inr data) coll)) \<noteq> 200
          \<longrightarrow> fst (book_appointment env (Inr data) coll) = coll)
       \<and> (status_code (snd (book_appointment env (Inr data) coll)) = 200)
          = ((\<exists>s. field_of data ''issues'' = JStr s) \<and> store_fault env 0 = None
             \<and> generated_id env \<notin> set (map doc_id coll))"
proof -
  have "\<exists>kvs. data = JObj kvs"
  proof (rule ccontr)
    assume "\<not> (\<exists>kvs. data = JObj kvs)"
    then have "field_of data ''patient_name'' = JNull"
      by (simp add: field_of_other)
    with assms show False by simp
  qed
  then obtain kvs where d: "data = JObj kvs" by blast
  from assms show ?thesis
    unfolding d field_of_object
    by (auto simp: book_appointment_def dict_get_object insert_one_def new_appointment_def
        with_id_def appointment.defs document.defs error_response_def jsonify_def
        call_calculate_priority_def no_attribute_def create_calendly_booking_def
        send_email_total
        split: json.splits option.splits)
qed

theorem book_appointment_success_witness:
  "list_all truthy [field_of data0 ''patient_name'', field_of data0 ''patient_email'',
             field_of data0 ''issues'', field_of data0 ''preferred_time'']
   \<and> status_code (snd (book_appointment env0 (Inr data0) [])) = 200
   \<and> fst (book_appointment env0 (Inr data0) []) = [doc0]
   \<and> snd (book_appointment env0 (Inr data0) []) =
        Response 200 (JObj
          [(''success'', JBool True),
           (''message'', JStr ''Form submitted successfully! Email will be sent shortly''),
           (''appointment_id'', JStr ''0123456789abcdef01234567'')])"
proof -
  have h: "list_all truthy [field_of data0 ''patient_name'', field_of data0 ''patient_email'',
             field_of data0 ''issues'', field_of data0 ''preferred_time'']"
    by (simp add: data0_get)
  note t = book_appointment_success [OF h, of env0 "[]"]
  from t have ok: "status_code (snd (book_appointment env0 (Inr data0) [])) = 200"
    by (simp add: data0_get env0_sel)
  with t show ?thesis
    using h by (simp add: data0_get env0_sel priority_example doc0_def)
qed



section \<open>Review\<close>

text \<open>
  C4. When the identifier resolves to a pending document and the update reaches the store,
  Approve replaces that document, in place, by one with status approved, doctor_approved
  true, approved_at the time of the request and the meeting link made of the fixed prefix
  and the first 10 characters of the identifier; nothing else in the store changes.
\<close>

theorem approve_appointment_pending:
  assumes "ObjectId appointment_id = Inr oid"
    and "find (\<lambda>x. doc_id x = oid) coll = Some d"
    and "status d = ''pending''"
    and "store_fault env 0 = None"
  shows "\<exists>pre post.
           coll = pre @ d # post
         \<and> fst (approve_appointment env appointment_id coll) =
             pre @ d\<lparr>status := ''approved'', doctor_approved := True,
                      google_meet_link := Some (''https://meet.google.com/'' @ take 10 appointment_id),
                      approved_at := Some (utcnow env)\<rparr> # post
         \<and> list_all (\<lambda>x. doc_id x \<noteq> oid) pre"
proof -
  let ?f = "approve_fields (''https://meet.google.com/'' @ take 10 appointment_id) (utcnow env)"
  from update_first_split [OF assms(2), of ?f] obtain pre post where
    s: "coll = pre @ d # post" "\<forall>x\<in>set pre. doc_id x \<noteq> oid"
       "update_first (\<lambda>x. doc_id x = oid) ?f coll = pre @ ?f d # post"
    by blast
  have "fst (approve_appointment env appointment_id coll) = update_first (\<lambda>x. doc_id x = oid) ?f coll"
    using assms(1,4)
    by (simp add: approve_appointment_def update_one_def Let_def send_email_total
        split: sum.splits option.splits prod.splits)
  with s have "coll = pre @ d # post
         \<and> fst (approve_appointment env appointment_id coll) =
             pre @ d\<lparr>status := ''approved'', doctor_approved := True,
                      google_meet_link := Some (''https://meet.google.com/'' @ take 10 appointment_id),
                      approved_at := Some (utcnow env)\<rparr> # post
         \<and> list_all (\<lambda>x. doc_id x \<noteq> oid) pre"
    by (simp add: approve_fields_def list_all_iff)
  then show ?thesis by blast
qed

theorem approve_appointment_pending_witness:
  "ObjectId ''0123456789abcdef01234567'' = Inr ''0123456789abcdef01234567''
   \<and> find (\<lambda>x. doc_id x = ''0123456789abcdef01234567'') [doc0] = Some doc0
   \<and> status doc0 = ''pending''
   \<and> store_fault env0 0 = None
   \<and> fst (approve_appointment env0 ''0123456789abcdef01234567'' [doc0]) =
        [doc0\<lparr>status := ''approved'', doctor_approved := True,
              google_meet_link := Some ''https://meet.google.com/0123456789'',
              approved_at := Some ''2024-05-01T10:00:00.000001''\<rparr>]"
proof -
  have f: "find (\<lambda>x. doc_id x = ''0123456789abcdef01234567'') [doc0] = Some doc0"
    by (simp add: doc0_sel)
  from approve_appointment_pending [OF oid0 f doc0_sel(2) env0_sel(4)]
  obtain pre post where
    s: "[doc0] = pre @ doc0 # post"
       "fst (approve_appointment env0 ''0123456789abcdef01234567'' [doc0]) =
          pre @ doc0\<lparr>status := ''approved'', doctor_approved := True,
                      google_meet_link := Some (''https://meet.google.com/'' @ take 10 ''0123456789abcdef01234567''),
                      approved_at := Some (utcnow env0)\<rparr> # post"
    by blast
  from s(1) have "pre = [] \<and> post = []"
    by (cases pre) auto
  with s(2) show ?thesis
    using f by (simp add: oid0 doc0_sel env0_sel)
qed

subsection \<open>What holds of every reachable store\<close>

lemma review_inv_approve: "review_inv (approve_fields l t d)"
  by (simp add: review_inv_def approve_fields_def)

lemma review_inv_reject: "review_inv d \<Longrightarrow> review_inv (reject_fields t d)"
  by (simp add: review_inv_def reject_fields_def)

lemma review_inv_new: "review_inv (with_id oid (new_appointment env n e i t p))"
  by (simp add: review_inv_def new_document_fields)

lemma step_review_inv:
  assumes inv: "\<And>x. x \<in> set coll \<Longrightarrow> review_inv x" and y: "y \<in> set (step r coll)"
  shows "review_inv y"
proof (cases r)
  case (Book env request_json)
  with assms book_appointment_store [of env request_json coll] show ?thesis
    by (auto simp: review_inv_new)
next
  case (Approve env a)
  from approve_appointment_store [of env a coll] show ?thesis
  proof
    assume "fst (approve_appointment env a coll) = coll"
    with Approve y inv show ?thesis by simp
  next
    assume "\<exists>oid. ObjectId a = Inr oid
          \<and> fst (approve_appointment env a coll)
              = update_first (\<lambda>d. doc_id d = oid)
                  (approve_fields (''https://meet.google.com/'' @ take 10 a) (utcnow env)) coll"
    then obtain oid where "fst (approve_appointment env a coll)
              = update_first (\<lambda>d. doc_id d = oid)
                  (approve_fields (''https://meet.google.com/'' @ take 10 a) (utcnow env)) coll"
      by blast
    with Approve y have "y \<in> set (update_first (\<lambda>d. doc_id d = oid)
                  (approve_fields (''https://meet.google.com/'' @ take 10 a) (utcnow env)) coll)"
      by simp
    then show ?thesis
      using inv review_inv_approve by (rule update_first_preserves [rotated 2])
  qed
next
  case (Reject env a)
  from reject_appointment_store [of env a coll] show ?thesis
  proof
    assume "fst (reject_appointment env a coll) = coll"
    with Reject y inv show ?thesis by simp
  next
    assume "\<exists>oid. ObjectId a = Inr oid
          \<and> fst (reject_appointment env a coll)
              = update_first (\<lambda>d. doc_id d = oid) (reject_fields (utcnow env)) coll"
    then obtain oid where "fst (reject_appointment env a coll)
              = update_first (\<lambda>d. doc_id d = oid) (reject_fields (utcnow env)) coll"
      by blast
    with Reject y have "y \<in> set (update_first (\<lambda>d. doc_id d = oid)
                  (reject_fields (utcnow env)) coll)"
      by simp
    then show ?thesis
      using inv review_inv_reject by (rule update_first_preserves [rotated 2])
  qed
qed

lemma run_review_inv:
  "(\<And>x. x \<in> set coll \<Longrightarrow> review_inv x) \<Longrightarrow> y \<in> set (run rs coll) \<Longrightarrow> review_inv y"
proof (induction rs arbitrary: coll)
  case Nil
  then show ?case by simp
next
  case (Cons r rs)
  have "\<And>x. x \<in> set (step r coll) \<Longrightarrow> review_inv x"
    using Cons.prems(1) by (rule step_review_inv)
  with Cons.IH [of "step r coll"] Cons.prems(2) show ?case by simp
qed

lemma reachable_review_inv: "y \<in> set (run rs []) \<Longrightarrow> review_inv y"
  by (rule run_review_inv [of "[]"]) simp_all

lemma find_in_set: "find P xs = Some d \<Longrightarrow> d \<in> set xs"
  by (induction xs) (auto split: if_splits)

text \<open>
  C5. In a store reached from the empty one, when the identifier resolves to a pending
  document and the update reaches the store, Reject replaces that document, in place, by
  one with status rejected, doctor_approved false and rejected_at the time of the request;
  its meeting link is untouched and therefore still null. Nothing else in the store changes.
\<close>

theorem reject_appointment_pending:
  assumes "ObjectId appointment_id = Inr oid"
    and "find (\<lambda>x. doc_id x = oid) (run rs []) = Some d"
    and "status d = ''pending''"
    and "store_fault env 0 = None"
  shows "\<exists>pre post.
           run rs [] = pre @ d # post
         \<and> fst (reject_appointment env appointment_id (run rs [])) =
             pre @ d\<lparr>status := ''rejected'', doctor_approved := False,
                      rejected_at := Some (utcnow env)\<rparr> # post
         \<and> list_all (\<lambda>x. doc_id x \<noteq> oid) pre
         \<and> google_meet_link (d\<lparr>status := ''rejected'', doctor_approved := False,
                                 rejected_at := Some (utcnow env)\<rparr>) = None"
proof -
  let ?f = "reject_fields (utcnow env)"
  let ?coll = "run rs []"
  from update_first_split [OF assms(2), of ?f] obtain pre post where
    s: "?coll = pre @ d # post" "\<forall>x\<in>set pre. doc_id x \<noteq> oid"
       "update_first (\<lambda>x. doc_id x = oid) ?f ?coll = pre @ ?f d # post"
    by blast
  have "review_inv d"
    using find_in_set [OF assms(2)] by (rule reachable_review_inv)
  with assms(3) have link: "google_meet_link d = None"
    by (simp add: review_inv_def)
  have "fst (reject_appointment env appointment_id ?coll) = update_first (\<lambda>x. doc_id x = oid) ?f ?coll"
    using assms(1,4)
    by (simp add: reject_appointment_def update_one_def Let_def send_email_total
        split: sum.splits option.splits prod.splits)
  with s link have "?coll = pre @ d # post
         \<and> fst (reject_appointment env appointment_id ?coll) =
             pre @ d\<lparr>status := ''rejected'', doctor_approved := False,
                      rejected_at := Some (utcnow env)\<rparr> # post
         \<and> list_all (\<lambda>x. doc_id x \<noteq> oid) pre
         \<and> google_meet_link (d\<lparr>status := ''rejected'', doctor_approved := False,
                                 rejected_at := Some (utcnow env)\<rparr>) = None"
    by (simp add: reject_fields_def list_all_iff)
  then show ?thesis by blast
qed

theorem reject_appointment_pending_witness:
  "ObjectId ''0123456789abcdef01234567'' = Inr ''0123456789abcdef01234567''
   \<and> find (\<lambda>x. doc_id x = ''0123456789abcdef01234567'') (run [Book env0 (Inr data0)] []) = Some doc0
   \<and> status doc0 = ''pending''
   \<and> store_fault env0 0 = None
   \<and> fst (reject_appointment env0 ''0123456789abcdef01234567'' (run [Book env0 (Inr data0)] [])) =
        [doc0\<lparr>status := ''rejected'', doctor_approved := False,
              rejected_at := Some ''2024-05-01T10:00:00.000001''\<rparr>]
   \<and> google_meet_link (doc0\<lparr>status := ''rejected'', doctor_approved := False,
              rejected_at := Some ''2024-05-01T10:00:00.000001''\<rparr>) = None"
proof -
  have f: "find (\<lambda>x. doc_id x = ''0123456789abcdef01234567'') (run [Book env0 (Inr data0)] []) = Some doc0"
    by (simp add: book0 doc0_sel)
  from reject_appointment_pending [OF oid0 f doc0_sel(2) env0_sel(4)]
  obtain pre post where
    s: "run [Book env0 (Inr data0)] [] = pre @ doc0 # post"
       "fst (reject_appointment env0 ''0123456789abcdef01234567'' (run [Book env0 (Inr data0)] [])) =
          pre @ doc0\<lparr>status := ''rejected'', doctor_approved := False,
                      rejected_at := Some (utcnow env0)\<rparr> # post"
       "google_meet_link (doc0\<lparr>status := ''rejected'', doctor_approved := False,
                                 rejected_at := Some (utcnow env0)\<rparr>) = None"
    by blast
  from s(1) have "pre = [] \<and> post = []"
    by (cases pre) (auto simp: book0)
  with s(2,3) show ?thesis
    using f by (simp add: oid0 doc0_sel env0_sel)
qed

subsection \<open>Identifiers that resolve to nothing\<close>

lemma find_None_list_ex: "find P xs = None \<Longrightarrow> \<not> list_ex P xs"
  by (induction xs) (auto split: if_splits)

text \<open>
  C10. When the identifier resolves to no document, Approve and Reject leave the store as
  it was and answer with status 500 and the body \<^verbatim>\<open>{success: false, message: str(e)}\<close> for
  the exception \<open>e\<close> that was raised, never with a success. When the identifier is a
  well-formed ObjectId and the store raises no error, the update matches 0 documents,
  \<^verbatim>\<open>find_one\<close> gives \<^verbatim>\<open>None\<close>, and the exception is the TypeError of subscripting it.
\<close>

theorem review_unknown_identifier:
  assumes "resolve appointment_id coll = None"
  shows "fst (approve_appointment env appointment_id coll) = coll
       \<and> (\<exists>e. snd (approve_appointment env appointment_id coll) =
                Response 500 (JObj [(''success'', JBool False), (''message'', JStr (exc_text e))]))
       \<and> fst (reject_appointment env appointment_id coll) = coll
       \<and> (\<exists>e. snd (reject_appointment env appointment_id coll) =
                Response 500 (JObj [(''success'', JBool False), (''message'', JStr (exc_text e))]))
       \<and> (\<forall>oid. ObjectId appointment_id = Inr oid \<and> store_fault env 0 = None
                  \<and> store_fault env 1 = None \<longrightarrow>
              (\<forall>set_fields. update_one env 0 oid set_fields coll = (coll, Inr 0))
            \<and> find_one env 1 oid coll = Inr None
            \<and> (\<exists>e. subscript None = Inl e
                  \<and> exc_text e =
                      [CHR 0x27] @ ''NoneType'' @ [CHR 0x27] @ '' object is not subscriptable''
                  \<and> snd (approve_appointment env appointment_id coll) = error_response e
                  \<and> snd (reject_appointment env appointment_id coll) = error_response e))"
proof (cases "ObjectId appointment_id")
  case (Inl e)
  then show ?thesis
    by (simp add: approve_appointment_def reject_appointment_def error_response_def jsonify_def
        Let_def) blast
next
  case (Inr oid)
  with assms have none: "find (\<lambda>d. doc_id d = oid) coll = None"
    by (simp add: resolve_def)
  have upd: "update_first (\<lambda>d. doc_id d = oid) f coll = coll" for f
    using none by (rule update_first_none)
  have nomatch: "\<not> list_ex (\<lambda>d. doc_id d = oid) coll"
    using none by (rule find_None_list_ex)
  have a1: "fst (approve_appointment env appointment_id coll) = coll"
    using Inr none
    by (auto simp: approve_appointment_def update_one_def find_one_def upd subscript_def Let_def
        split: option.splits sum.splits)
  have "\<exists>e. snd (approve_appointment env appointment_id coll) = error_response e"
    using Inr none
    by (auto simp: approve_appointment_def update_one_def find_one_def upd subscript_def Let_def
        split: option.splits sum.splits)
  then have a2: "\<exists>e. snd (approve_appointment env appointment_id coll) =
                Response 500 (JObj [(''success'', JBool False), (''message'', JStr (exc_text e))])"
    by (simp add: error_response_def jsonify_def)
  have r1: "fst (reject_appointment env appointment_id coll) = coll"
    using Inr none
    by (auto simp: reject_appointment_def update_one_def find_one_def upd subscript_def
        split: option.splits sum.splits)
  have "\<exists>e. snd (reject_appointment env appointment_id coll) = error_response e"
    using Inr none
    by (auto simp: reject_appointment_def update_one_def find_one_def upd subscript_def Let_def
        split: option.splits sum.splits)
  then have r2: "\<exists>e. snd (reject_appointment env appointment_id coll) =
                Response 500 (JObj [(''success'', JBool False), (''message'', JStr (exc_text e))])"
    by (simp add: error_response_def jsonify_def)
  have sub: "subscript None = Inl (TypeError
                   ([CHR 0x27] @ ''NoneType'' @ [CHR 0x27] @ '' object is not subscriptable''))"
    by (simp add: subscript_def)
  have m: "store_fault env 0 = None \<Longrightarrow> store_fault env 1 = None \<Longrightarrow>
              (\<forall>set_fields. update_one env 0 oid set_fields coll = (coll, Inr 0))
            \<and> find_one env 1 oid coll = Inr None
            \<and> (\<exists>e. subscript None = Inl e
                  \<and> exc_text e =
                      [CHR 0x27] @ ''NoneType'' @ [CHR 0x27] @ '' object is not subscriptable''
                  \<and> snd (approve_appointment env appointment_id coll) = error_response e
                  \<and> snd (reject_appointment env appointment_id coll) = error_response e)"
  proof -
    assume f: "store_fault env 0 = None" "store_fault env 1 = None"
    have u: "update_one env 0 oid g coll = (coll, Inr 0)" for g
      using f nomatch by (simp add: update_one_def upd)
    have fo: "find_one env (Suc 0) oid coll = Inr None"
      using f none by (simp add: find_one_def)
    have ap: "snd (approve_appointment env appointment_id coll) = error_response (TypeError
                   ([CHR 0x27] @ ''NoneType'' @ [CHR 0x27] @ '' object is not subscriptable''))"
      using Inr by (simp add: approve_appointment_def u fo sub)
    have rj: "snd (reject_appointment env appointment_id coll) = error_response (TypeError
                   ([CHR 0x27] @ ''NoneType'' @ [CHR 0x27] @ '' object is not subscriptable''))"
      using Inr by (simp add: reject_appointment_def u fo sub)
    have "exc_text (TypeError
                   ([CHR 0x27] @ ''NoneType'' @ [CHR 0x27] @ '' object is not subscriptable''))
          = [CHR 0x27] @ ''NoneType'' @ [CHR 0x27] @ '' object is not subscriptable''"
      by simp
    with sub ap rj have "\<exists>e. subscript None = Inl e
                  \<and> exc_text e =
                      [CHR 0x27] @ ''NoneType'' @ [CHR 0x27] @ '' object is not subscriptable''
                  \<and> snd (approve_appointment env appointment_id coll) = error_response e
                  \<and> snd (reject_appointment env appointment_id coll) = error_response e"
      by blast
    with u fo show ?thesis by simp
  qed
  from a1 a2 r1 r2 m Inr show ?thesis
    by simp
qed

theorem review_unknown_identifier_witness:
  "resolve ''ffffffffffffffffffffffff'' [doc0] = None
   \<and> approve_appointment env0 ''ffffffffffffffffffffffff'' [doc0] =
       ([doc0], Response 500 (JObj
          [(''success'', JBool False),
           (''message'',
            JStr ([CHR 0x27] @ ''NoneType'' @ [CHR 0x27] @ '' object is not subscriptable''))]))
   \<and> reject_appointment env0 ''ffffffffffffffffffffffff'' [doc0] =
       ([doc0], Response 500 (JObj
          [(''success'', JBool False),
           (''message'',
            JStr ([CHR 0x27] @ ''NoneType'' @ [CHR 0x27] @ '' object is not subscriptable''))]))"
proof -
  note t = review_unknown_identifier [OF resolve_f, of env0]
  from t have a: "fst (approve_appointment env0 ''ffffffffffffffffffffffff'' [doc0]) = [doc0]"
    and r: "fst (reject_appointment env0 ''ffffffffffffffffffffffff'' [doc0]) = [doc0]"
    by blast+
  from t oid_f env0_sel(4) obtain e where
    e: "exc_text e = [CHR 0x27] @ ''NoneType'' @ [CHR 0x27] @ '' object is not subscriptable''"
       "snd (approve_appointment env0 ''ffffffffffffffffffffffff'' [doc0]) = error_response e"
       "snd (reject_appointment env0 ''ffffffffffffffffffffffff'' [doc0]) = error_response e"
    by blast
  have "approve_appointment env0 ''ffffffffffffffffffffffff'' [doc0] = ([doc0], error_response e)"
    using a e(2) by (simp add: prod_eq_iff)
  moreover have "reject_appointment env0 ''ffffffffffffffffffffffff'' [doc0] = ([doc0], error_response e)"
    using r e(3) by (simp add: prod_eq_iff)
  ultimately show ?thesis
    using e(1) resolve_f by (simp add: error_response_def jsonify_def)
qed

text \<open>
  A string that is no ObjectId at all resolves to nothing either: the exception is then
  InvalidId, raised before the store is called, and the answer has the same shape.
\<close>

lemma approve_malformed_identifier:
  "approve_appointment env0 ''abc'' [doc0] =
     ([doc0], Response 500 (JObj
        [(''success'', JBool False),
         (''message'',
          JStr ([CHR 0x27] @ ''abc'' @ [CHR 0x27]
                @ '' is not a valid ObjectId, it must be a 12-byte input or a 24-character hex string''))]))"
  by (simp add: approve_appointment_def ObjectId_def error_response_def jsonify_def)


section \<open>Meeting link and status over time\<close>

text \<open>
  C7 as stated fails: booking, approving and then rejecting the same appointment leaves a
  document whose status is rejected and whose meeting link is still there.
\<close>

theorem meeting_link_iff_approved_counterexample:
  "map status
     (run [Book env0 (Inr data0), Approve env0 ''0123456789abcdef01234567'',
           Reject env0 ''0123456789abcdef01234567''] []) = [''rejected'']
   \<and> map google_meet_link
     (run [Book env0 (Inr data0), Approve env0 ''0123456789abcdef01234567'',
           Reject env0 ''0123456789abcdef01234567''] [])
       = [Some ''https://meet.google.com/0123456789'']"
  by (simp add: book0 approve0 reject0 doc0_rejected_sel)

text \<open>
  C7, amended. In every store reached from the empty one by bookings, approvals and
  rejections, a document whose status is approved has a meeting link, a document whose
  status is pending has none, and a document has a meeting link exactly when it has been
  approved at some time (approved_at is set).
\<close>

theorem meeting_link_invariant:
  assumes "d \<in> set (run rs [])"
  shows "(status d = ''approved'' \<longrightarrow> google_meet_link d \<noteq> None)
       \<and> (status d = ''pending'' \<longrightarrow> google_meet_link d = None)
       \<and> ((google_meet_link d \<noteq> None) = (approved_at d \<noteq> None))"
  using reachable_review_inv [OF assms] unfolding review_inv_def by blast

theorem meeting_link_invariant_witness:
  "doc0_approved \<in> set (run [Book env0 (Inr data0), Approve env0 ''0123456789abcdef01234567''] [])
   \<and> status doc0_approved = ''approved''
   \<and> google_meet_link doc0_approved \<noteq> None
   \<and> approved_at doc0_approved \<noteq> None"
proof -
  have m: "doc0_approved \<in> set (run [Book env0 (Inr data0), Approve env0 ''0123456789abcdef01234567''] [])"
    by (simp add: book0 approve0)
  from meeting_link_invariant [OF m] m show ?thesis
    by (simp add: doc0_approved_sel)
qed

text \<open>
  C8 as stated fails: neither handler looks at the current status, so rejecting an
  approved appointment moves it from approved to rejected.
\<close>

theorem status_transition_counterexample:
  "map status (run [Book env0 (Inr data0), Approve env0 ''0123456789abcdef01234567''] [])
     = [''approved'']
   \<and> map status
       (step (Reject env0 ''0123456789abcdef01234567'')
          (run [Book env0 (Inr data0), Approve env0 ''0123456789abcdef01234567''] []))
     = [''rejected'']"
  by (simp add: book0 approve0 reject0 doc0_rejected_sel doc0_approved_sel)

lemma length_update_first: "length (update_first P f xs) = length xs"
  by (induction xs) auto

lemma nth_update_first:
  "i < length xs \<Longrightarrow>
   update_first P f xs ! i = xs ! i
   \<or> (P (xs ! i) \<and> (\<forall>j<i. \<not> P (xs ! j)) \<and> update_first P f xs ! i = f (xs ! i))"
proof (induction xs arbitrary: i)
  case Nil
  then show ?case by simp
next
  case (Cons x xs)
  show ?case
  proof (cases i)
    case 0
    then show ?thesis by simp
  next
    case (Suc k)
    show ?thesis
    proof (cases "P x")
      case True
      with Suc show ?thesis by simp
    next
      case False
      from Cons.prems Suc have "k < length xs" by simp
      from Cons.IH [OF this]
      have "update_first P f xs ! k = xs ! k
        \<or> (P (xs ! k) \<and> (\<forall>j<k. \<not> P (xs ! j)) \<and> update_first P f xs ! k = f (xs ! k))" .
      then show ?thesis
      proof
        assume "update_first P f xs ! k = xs ! k"
        with False Suc show ?thesis by simp
      next
        assume a: "P (xs ! k) \<and> (\<forall>j<k. \<not> P (xs ! j)) \<and> update_first P f xs ! k = f (xs ! k)"
        have "\<forall>j<Suc k. \<not> P ((x # xs) ! j)"
        proof (intro allI impI)
          fix j assume "j < Suc k"
          with a False show "\<not> P ((x # xs) ! j)"
            by (cases j) auto
        qed
        with a False Suc show ?thesis by simp
      qed
    qed
  qed
qed

lemma approve_single:
  "doc_id d = ''0123456789abcdef01234567'' \<Longrightarrow>
   fst (approve_appointment env0 ''0123456789abcdef01234567'' [d]) =
     [approve_fields ''https://meet.google.com/0123456789'' ''2024-05-01T10:00:00.000001'' d]"
  by (simp add: approve_appointment_def oid0 update_one_def find_one_def subscript_def
      send_email_total env0_sel approve_fields_def)

lemma reject_single:
  "doc_id d = ''0123456789abcdef01234567'' \<Longrightarrow>
   fst (reject_appointment env0 ''0123456789abcdef01234567'' [d]) =
     [reject_fields ''2024-05-01T10:00:00.000001'' d]"
  by (simp add: reject_appointment_def oid0 update_one_def find_one_def subscript_def
      send_email_total env0_sel reject_fields_def)

lemma review_fields_sel:
  "doc_id (approve_fields l t d) = doc_id d"
  "doc_id (reject_fields t d) = doc_id d"
  "status (approve_fields l t d) = ''approved''"
  "status (reject_fields t d) = ''rejected''"
  by (simp_all add: approve_fields_def reject_fields_def)

lemma status_runs:
  "map status (run [Book env0 (Inr data0)] []) = [''pending'']"
  "map status (run [Book env0 (Inr data0), Approve env0 ''0123456789abcdef01234567''] [])
     = [''approved'']"
  "map status (run [Book env0 (Inr data0), Reject env0 ''0123456789abcdef01234567''] [])
     = [''rejected'']"
  "map status (run [Book env0 (Inr data0), Approve env0 ''0123456789abcdef01234567'',
                    Reject env0 ''0123456789abcdef01234567''] []) = [''rejected'']"
  "map status (run [Book env0 (Inr data0), Reject env0 ''0123456789abcdef01234567'',
                    Approve env0 ''0123456789abcdef01234567''] []) = [''approved'']"
  by (simp_all add: book0 approve_single reject_single review_fields_sel doc0_sel)

text \<open>
  C8, amended. At every step every document of the store stays at its position with its
  identifier, and either is unchanged, or has been set to approved by an Approve request
  for its identifier, or has been set to rejected by a Reject request for its identifier,
  whatever its status was before; the document changed is the first one with that
  identifier. So no step returns a document to pending, and a booking changes no existing
  document. Each of pending to approved, pending to rejected, approved to rejected and
  rejected to approved does occur.
\<close>

theorem status_transitions:
  assumes "i < length coll"
  shows "i < length (step r coll)
       \<and> doc_id (step r coll ! i) = doc_id (coll ! i)
       \<and> (step r coll ! i = coll ! i
          \<or> (\<exists>env a. r = Approve env a
                \<and> ObjectId a = Inr (doc_id (coll ! i))
                \<and> (\<forall>j<i. doc_id (coll ! j) \<noteq> doc_id (coll ! i))
                \<and> step r coll ! i =
                    (coll ! i)\<lparr>status := ''approved'', doctor_approved := True,
                      google_meet_link := Some (''https://meet.google.com/'' @ take 10 a),
                      approved_at := Some (utcnow env)\<rparr>)
          \<or> (\<exists>env a. r = Reject env a
                \<and> ObjectId a = Inr (doc_id (coll ! i))
                \<and> (\<forall>j<i. doc_id (coll ! j) \<noteq> doc_id (coll ! i))
                \<and> step r coll ! i =
                    (coll ! i)\<lparr>status := ''rejected'', doctor_approved := False,
                      rejected_at := Some (utcnow env)\<rparr>))
       \<and> map status (run [Book env0 (Inr data0)] []) = [''pending'']
       \<and> map status (run [Book env0 (Inr data0), Approve env0 ''0123456789abcdef01234567''] [])
           = [''approved'']
       \<and> map status (run [Book env0 (Inr data0), Reject env0 ''0123456789abcdef01234567''] [])
           = [''rejected'']
       \<and> map status (run [Book env0 (Inr data0), Approve env0 ''0123456789abcdef01234567'',
                          Reject env0 ''0123456789abcdef01234567''] []) = [''rejected'']
       \<and> map status (run [Book env0 (Inr data0), Reject env0 ''0123456789abcdef01234567'',
                          Approve env0 ''0123456789abcdef01234567''] []) = [''approved'']"
proof -
  have main: "i < length (step r coll)
       \<and> doc_id (step r coll ! i) = doc_id (coll ! i)
       \<and> (step r coll ! i = coll ! i
          \<or> (\<exists>env a. r = Approve env a
                \<and> ObjectId a = Inr (doc_id (coll ! i))
                \<and> (\<forall>j<i. doc_id (coll ! j) \<noteq> doc_id (coll ! i))
                \<and> step r coll ! i =
                    (coll ! i)\<lparr>status := ''approved'', doctor_approved := True,
                      google_meet_link := Some (''https://meet.google.com/'' @ take 10 a),
                      approved_at := Some (utcnow env)\<rparr>)
          \<or> (\<exists>env a. r = Reject env a
                \<and> ObjectId a = Inr (doc_id (coll ! i))
                \<and> (\<forall>j<i. doc_id (coll ! j) \<noteq> doc_id (coll ! i))
                \<and> step r coll ! i =
                    (coll ! i)\<lparr>status := ''rejected'', doctor_approved := False,
                      rejected_at := Some (utcnow env)\<rparr>))"
  proof (cases r)
    case (Book env request_json)
    from book_appointment_store [of env request_json coll] assms Book show ?thesis
      by (auto simp: nth_append)
  next
    case (Approve env a)
    let ?f = "approve_fields (''https://meet.google.com/'' @ take 10 a) (utcnow env)"
    from approve_appointment_store [of env a coll]
    consider "step r coll = coll"
      | oid where "ObjectId a = Inr oid" "step r coll = update_first (\<lambda>d. doc_id d = oid) ?f coll"
      using Approve by auto
    then show ?thesis
    proof cases
      case 1
      with assms show ?thesis by simp
    next
      case 2
      from nth_update_first [OF assms, of "\<lambda>d. doc_id d = oid" ?f]
      have "step r coll ! i = coll ! i
          \<or> (doc_id (coll ! i) = oid \<and> (\<forall>j<i. doc_id (coll ! j) \<noteq> oid)
              \<and> step r coll ! i = ?f (coll ! i))"
        using 2 by simp
      then show ?thesis
      proof
        assume "step r coll ! i = coll ! i"
        with assms 2 show ?thesis by (simp add: length_update_first)
      next
        assume a: "doc_id (coll ! i) = oid \<and> (\<forall>j<i. doc_id (coll ! j) \<noteq> oid)
              \<and> step r coll ! i = ?f (coll ! i)"
        then have "doc_id (step r coll ! i) = doc_id (coll ! i)"
          by (simp add: review_fields_sel)
        moreover from a 2 Approve have "\<exists>env a. r = Approve env a
                \<and> ObjectId a = Inr (doc_id (coll ! i))
                \<and> (\<forall>j<i. doc_id (coll ! j) \<noteq> doc_id (coll ! i))
                \<and> step r coll ! i =
                    (coll ! i)\<lparr>status := ''approved'', doctor_approved := True,
                      google_meet_link := Some (''https://meet.google.com/'' @ take 10 a),
                      approved_at := Some (utcnow env)\<rparr>"
          by (simp add: approve_fields_def)
        moreover from assms 2 have "i < length (step r coll)"
          by (simp add: length_update_first)
        ultimately show ?thesis by blast
      qed
    qed
  next
    case (Reject env a)
    let ?f = "reject_fields (utcnow env)"
    from reject_appointment_store [of env a coll]
    consider "step r coll = coll"
      | oid where "ObjectId a = Inr oid" "step r coll = update_first (\<lambda>d. doc_id d = oid) ?f coll"
      using Reject by auto
    then show ?thesis
    proof cases
      case 1
      with assms show ?thesis by simp
    next
      case 2
      from nth_update_first [OF assms, of "\<lambda>d. doc_id d = oid" ?f]
      have "step r coll ! i = coll ! i
          \<or> (doc_id (coll ! i) = oid \<and> (\<forall>j<i. doc_id (coll ! j) \<noteq> oid)
              \<and> step r coll ! i = ?f (coll ! i))"
        using 2 by simp
      then show ?thesis
      proof
        assume "step r coll ! i = coll ! i"
        with assms 2 show ?thesis by (simp add: length_update_first)
      next
        assume a: "doc_id (coll ! i) = oid \<and> (\<forall>j<i. doc_id (coll ! j) \<noteq> oid)
              \<and> step r coll ! i = ?f (coll ! i)"
        then have "doc_id (step r coll ! i) = doc_id (coll ! i)"
          by (simp add: review_fields_sel)
        moreover from a 2 Reject have "\<exists>env a. r = Reject env a
                \<and> ObjectId a = Inr (doc_id (coll ! i))
                \<and> (\<forall>j<i. doc_id (coll ! j) \<noteq> doc_id (coll ! i))
                \<and> step r coll ! i =
                    (coll ! i)\<lparr>status := ''rejected'', doctor_approved := False,
                      rejected_at := Some (utcnow env)\<rparr>"
          by (simp add: reject_fields_def)
        moreover from assms 2 have "i < length (step r coll)"
          by (simp add: length_update_first)
        ultimately show ?thesis by blast
      qed
    qed
  qed
  with status_runs show ?thesis by blast
qed

theorem status_transitions_witness:
  "0 < length [doc0]
   \<and> 0 < length (step (Approve env0 ''0123456789abcdef01234567'') [doc0])
   \<and> ObjectId ''0123456789abcdef01234567'' = Inr (doc_id ([doc0] ! 0))
   \<and> step (Approve env0 ''0123456789abcdef01234567'') [doc0] ! 0 = doc0_approved
   \<and> status (step (Approve env0 ''0123456789abcdef01234567'') [doc0] ! 0) = ''approved''
   \<and> status ([doc0] ! 0) = ''pending''"
proof -
  have h: "0 < length [doc0]" by simp
  from status_transitions [OF h, of "Approve env0 ''0123456789abcdef01234567''"]
  have "0 < length (step (Approve env0 ''0123456789abcdef01234567'') [doc0])"
    by blast
  then show ?thesis
    by (simp add: approve0 doc0_approved_sel doc0_sel oid0)
qed


section \<open>Email failures\<close>

text \<open>
  C9. \<^verbatim>\<open>send_email\<close> returns a boolean for every recipient, subject and body, true exactly
  when the relay raised nothing, and never raises itself. The results of booking, Approve
  and Reject (store and response) do not depend on how the relay behaves; in particular a
  booking answers with success and the new identifier when both of its emails fail.
\<close>

theorem email_failure_is_not_fatal:
  "send_email env to_email subject body = Inr (smtp_fault env to_email subject body = None)
   \<and> book_appointment (env\<lparr>smtp_fault := relay\<rparr>) request_json coll
       = book_appointment env request_json coll
   \<and> approve_appointment (env\<lparr>smtp_fault := relay\<rparr>) appointment_id coll
       = approve_appointment env appointment_id coll
   \<and> reject_appointment (env\<lparr>smtp_fault := relay\<rparr>) appointment_id coll
       = reject_appointment env appointment_id coll
   \<and> book_appointment
        (env0\<lparr>smtp_fault := \<lambda>to_email subject body. Some (SMTPError ''Connection refused'')\<rparr>)
        (Inr data0) []
       = ([doc0], Response 200 (JObj
            [(''success'', JBool True),
             (''message'', JStr ''Form submitted successfully! Email will be sent shortly''),
             (''appointment_id'', JStr ''0123456789abcdef01234567'')]))"
proof -
  have ins: "insert_one (e\<lparr>smtp_fault := r\<rparr>) n a c = insert_one e n a c" for e r n a c
    by (simp add: insert_one_def split: option.splits)
  have upd: "update_one (e\<lparr>smtp_fault := r\<rparr>) n oid g c = update_one e n oid g c" for e r n oid g c
    by (simp add: update_one_def)
  have fnd: "find_one (e\<lparr>smtp_fault := r\<rparr>) n oid c = find_one e n oid c" for e r n oid c
    by (simp add: find_one_def)
  have new: "new_appointment (e\<lparr>smtp_fault := r\<rparr>) a b c d p = new_appointment e a b c d p"
    for e r a b c d p
    by (simp add: new_appointment_def)
  have book: "book_appointment (e\<lparr>smtp_fault := r\<rparr>) dt c = book_appointment e dt c" for e r dt c
    by (simp add: book_appointment_def ins new create_calendly_booking_def send_email_total
        cong: sum.case_cong prod.case_cong if_cong)
  have approve: "approve_appointment (e\<lparr>smtp_fault := r\<rparr>) a c = approve_appointment e a c" for e r a c
    by (simp add: approve_appointment_def upd fnd send_email_total Let_def
        cong: sum.case_cong prod.case_cong)
  have reject: "reject_appointment (e\<lparr>smtp_fault := r\<rparr>) a c = reject_appointment e a c" for e r a c
    by (simp add: reject_appointment_def upd fnd send_email_total
        cong: sum.case_cong prod.case_cong)
  have "book_appointment
        (env0\<lparr>smtp_fault := \<lambda>to_email subject body. Some (SMTPError ''Connection refused'')\<rparr>)
        (Inr data0) [] = book_appointment env0 (Inr data0) []"
    by (rule book)
  then show ?thesis
    by (simp add: send_email_total book approve reject book0)
qed


section \<open>The order of the listing\<close>

lemma insort_key_lex:
  assumes "sorted_wrt (\<lambda>a b. f a < f b \<or> (f a = f b \<and> R a b)) zs"
    and "\<forall>z\<in>set zs. R y z"
  shows "sorted_wrt (\<lambda>a b. f a < f b \<or> (f a = f b \<and> R a b)) (insort_key f y zs)"
  using assms
proof (induction zs)
  case Nil
  then show ?case by simp
next
  case (Cons z zs)
  show ?case
  proof (cases "f y \<le> f z")
    case True
    have "\<forall>w\<in>set (z # zs). f y < f w \<or> (f y = f w \<and> R y w)"
    proof
      fix w assume w: "w \<in> set (z # zs)"
      have "f z \<le> f w"
      proof (cases "w = z")
        case True
        then show ?thesis by simp
      next
        case False
        with w Cons.prems(1) show ?thesis by auto
      qed
      with True have "f y \<le> f w" by simp
      moreover from w Cons.prems(2) have "R y w" by blast
      ultimately show "f y < f w \<or> (f y = f w \<and> R y w)" by auto
    qed
    with True Cons.prems(1) show ?thesis by simp
  next
    case False
    from Cons.prems have ih: "sorted_wrt (\<lambda>a b. f a < f b \<or> (f a = f b \<and> R a b)) (insort_key f y zs)"
      by (intro Cons.IH) auto
    have "\<forall>w\<in>set (insort_key f y zs). f z < f w \<or> (f z = f w \<and> R z w)"
      using False Cons.prems(1) by (auto simp: set_insort_key)
    with False ih show ?thesis by simp
  qed
qed

lemma sort_key_lex:
  "sorted_wrt R ys \<Longrightarrow>
   sorted_wrt (\<lambda>a b. f a < f b \<or> (f a = f b \<and> R a b)) (sort_key f ys)"
proof (induction ys)
  case Nil
  then show ?case by simp
next
  case (Cons y ys)
  then have "sorted_wrt (\<lambda>a b. f a < f b \<or> (f a = f b \<and> R a b)) (sort_key f ys)"
    and "\<forall>z\<in>set (sort_key f ys). R y z"
    by auto
  then show ?case
    by (simp add: insort_key_lex)
qed

lemma created_at_descending:
  "sorted_wrt (\<lambda>a b. created_at b \<le> created_at a) (rev (sort_key created_at coll))"
proof -
  have "sorted (map created_at (sort_key created_at coll))"
    by (rule sorted_sort_key)
  then have "sorted_wrt (\<lambda>a b. created_at a \<le> created_at b) (sort_key created_at coll)"
    by (simp add: sorted_map)
  then show ?thesis
    by (simp add: sorted_wrt_rev)
qed

lemma priority_rank_cases:
  "priority_rank x =
     (if priority x = ''High'' then 0 else if priority x = ''Medium'' then 1
      else if priority x = ''Low'' then 2 else 3)"
  by (simp add: priority_rank_def priority_order_def)

text \<open>
  C6. When the store answers, the listing returns every document of the store, ordered by
  priority rank ascending (High 0, Medium 1, Low 2, any other priority 3, hence last) and,
  within one rank, by created_at descending: the sort by rank is stable and keeps, within
  each rank, the order in which the store returned the documents.
\<close>

theorem get_appointments_order:
  assumes "store_fault env 0 = None"
  shows "\<exists>xs. sorted_appointments env coll = Inr xs
       \<and> get_appointments env coll =
           Response 200 (JObj [(''success'', JBool True),
                               (''appointments'', JArr (map document_json xs))])
       \<and> mset xs = mset coll
       \<and> sorted_wrt (\<lambda>a b. priority_rank a < priority_rank b
                          \<or> (priority_rank a = priority_rank b \<and> created_at b \<le> created_at a)) xs
       \<and> (\<forall>r. filter (\<lambda>x. priority_rank x = r) xs
              = filter (\<lambda>x. priority_rank x = r) (rev (sort_key created_at coll)))
       \<and> (\<forall>x. priority_rank x =
              (if priority x = ''High'' then 0 else if priority x = ''Medium'' then 1
               else if priority x = ''Low'' then 2 else 3))"
proof -
  let ?ys = "rev (sort_key created_at coll)"
  let ?xs = "sort_key priority_rank ?ys"
  have 1: "sorted_appointments env coll = Inr ?xs"
    using assms by (simp add: sorted_appointments_def find_sorted_desc_def)
  then have 2: "get_appointments env coll =
           Response 200 (JObj [(''success'', JBool True),
                               (''appointments'', JArr (map document_json ?xs))])"
    by (simp add: get_appointments_def jsonify_def)
  have 3: "mset ?xs = mset coll"
    by simp
  have 4: "sorted_wrt (\<lambda>a b. priority_rank a < priority_rank b
                          \<or> (priority_rank a = priority_rank b \<and> created_at b \<le> created_at a)) ?xs"
    using created_at_descending by (rule sort_key_lex)
  have 5: "filter (\<lambda>x. priority_rank x = r) ?xs = filter (\<lambda>x. priority_rank x = r) ?ys" for r
    by (rule sort_key_stable)
  from 1 2 3 4 5 priority_rank_cases show ?thesis
    by blast
qed

lemma listing_example:
  "sorted_appointments env0 [doc0, doc_other, doc_high, doc_medium]
     = Inr [doc_high, doc_medium, doc0, doc_other]"
  by (simp add: sorted_appointments_def find_sorted_desc_def env0_sel priority_rank_cases
      doc0_def doc_high_def doc_medium_def doc_other_def)

theorem get_appointments_order_witness:
  "store_fault env0 0 = None
   \<and> (\<exists>xs. sorted_appointments env0 [doc0, doc_other, doc_high, doc_medium] = Inr xs
         \<and> mset xs = mset [doc0, doc_other, doc_high, doc_medium]
         \<and> sorted_wrt (\<lambda>a b. priority_rank a < priority_rank b
                          \<or> (priority_rank a = priority_rank b \<and> created_at b \<le> created_at a)) xs)
   \<and> sorted_appointments env0 [doc0, doc_other, doc_high, doc_medium]
       = Inr [doc_high, doc_medium, doc0, doc_other]"
proof -
  from get_appointments_order [OF env0_sel(4), of "[doc0, doc_other, doc_high, doc_medium]"]
  have "\<exists>xs. sorted_appointments env0 [doc0, doc_other, doc_high, doc_medium] = Inr xs
         \<and> mset xs = mset [doc0, doc_other, doc_high, doc_medium]
         \<and> sorted_wrt (\<lambda>a b. priority_rank a < priority_rank b
                          \<or> (priority_rank a = priority_rank b \<and> created_at b \<le> created_at a)) xs"
    by blast
  then show ?thesis
    using listing_example env0_sel(4) by blast
qed

end
